theory Spec2Isabelle
  imports Main
begin

section \<open>JavaScript strings and values\<close>

text \<open>
  A JavaScript string is modelled as a \<^typ>\<open>string\<close>: one \<^typ>\<open>char\<close> per code unit
  (code units up to 255), so \<^term>\<open>length\<close> is the \<open>.length\<close> of the source.
\<close>

text \<open>\<open>s.startsWith(p)\<close>\<close>

fun startsWith :: "string \<Rightarrow> string \<Rightarrow> bool" where
  "startsWith s [] = True"
| "startsWith [] (p # ps) = False"
| "startsWith (c # cs) (p # ps) = (c = p \<and> startsWith cs ps)"

text \<open>\<open>s.includes(p)\<close>\<close>

fun includesStr :: "string \<Rightarrow> string \<Rightarrow> bool" where
  "includesStr [] p = (p = [])"
| "includesStr (c # cs) p = (startsWith (c # cs) p \<or> includesStr cs p)"

text \<open>The number of positions of \<open>s\<close> at which \<open>p\<close> occurs (used to count tags in markup).\<close>

fun occurrences :: "string \<Rightarrow> string \<Rightarrow> nat" where
  "occurrences p [] = (if p = [] then 1 else 0)"
| "occurrences p (c # cs) = (if startsWith (c # cs) p then 1 else 0) + occurrences p cs"

text \<open>
  \<open>s.trim()\<close>: white space and line terminators are removed at both ends. Of the code
  units that \<open>trim\<close> removes, these are the ones below 256: TAB, LF, VT, FF, CR, SP, NBSP.
\<close>

definition isWhiteSpace :: "char \<Rightarrow> bool" where
  "isWhiteSpace c = (of_char c \<in> {9, 10, 11, 12, 13, 32, 160 :: nat})"

definition trim :: "string \<Rightarrow> string" where
  "trim s = rev (dropWhile isWhiteSpace (rev (dropWhile isWhiteSpace s)))"

text \<open>
  A template literal \<open>`${n}`\<close> with a number \<open>n\<close>: its decimal digits. The numbers
  printed are HTTP status codes and course ids (values of an \<open>INT\<close> column), natural
  numbers below \<open>2^53\<close>, which a JavaScript number holds exactly.
\<close>

definition digit :: "nat \<Rightarrow> char" where
  "digit d = ''0123456789'' ! (d mod 10)"

function numberToString :: "nat \<Rightarrow> string" where
  "numberToString n =
     (if n < 10 then [digit n] else numberToString (n div 10) @ [digit (n mod 10)])"
  by pat_completeness auto
termination
  by (relation "measure id") auto

declare numberToString.simps [simp del]

text \<open>
  A value read from a JSON object where the interface has an optional string
  (\<open>message?\<close>, \<open>name?\<close>, \<open>description?\<close>): \<open>None\<close> is \<open>undefined\<close> or \<open>null\<close>.
  \<open>v || d\<close> yields \<open>d\<close> when \<open>v\<close> is falsy: absent, or the empty string.
\<close>

fun orElse :: "string option \<Rightarrow> string \<Rightarrow> string" where
  "orElse None d = d"
| "orElse (Some []) d = d"
| "orElse (Some (c # cs)) d = c # cs"

section \<open>The browser: elements, timers, console, network\<close>

text \<open>An element with text and a class list (\<open>DOMTokenList\<close>: an ordered set of tokens).\<close>

record element =
  textContent :: string
  classList :: "string list"

definition classList_add :: "string list \<Rightarrow> string \<Rightarrow> string list" where
  "classList_add cl t = (if t \<in> set cl then cl else cl @ [t])"

definition classList_remove :: "string list \<Rightarrow> string list \<Rightarrow> string list" where
  "classList_remove cl ts = filter (\<lambda>c. c \<notin> set ts) cl"

definition classList_contains :: "string list \<Rightarrow> string \<Rightarrow> bool" where
  "classList_contains cl t = (t \<in> set cl)"

text \<open>The callbacks the pages pass to \<open>setTimeout\<close>.\<close>

datatype callback =
    ClearStatus   \<comment> \<open>dashboard.js, lines 35-38\<close>
  | GoToLogin     \<comment> \<open>\<open>window.location.href = '/login.html'\<close>\<close>

datatype level = Log | Warn | Error

datatype request =
    Get string
  | Post string "(string \<times> string) list"   \<comment> \<open>URL and the fields of the JSON body\<close>

text \<open>
  What a page can observe and change outside its own elements: the pending timers (delay
  in milliseconds and callback, in the order they were set), the location, the console
  (level and first argument of each call) and the requests issued by \<open>fetch\<close>, in order.
\<close>

record window =
  timers :: "(nat \<times> callback) list"
  href :: string
  console :: "(level \<times> string) list"
  fetched :: "request list"

definition setTimeout :: "callback \<Rightarrow> nat \<Rightarrow> 'a window_scheme \<Rightarrow> 'a window_scheme" where
  "setTimeout cb delay w = w\<lparr>timers := timers w @ [(delay, cb)]\<rparr>"

definition console_log :: "level \<Rightarrow> string \<Rightarrow> 'a window_scheme \<Rightarrow> 'a window_scheme" where
  "console_log l m w = w\<lparr>console := console w @ [(l, m)]\<rparr>"

definition fetch :: "request \<Rightarrow> 'a window_scheme \<Rightarrow> 'a window_scheme" where
  "fetch r w = w\<lparr>fetched := fetched w @ [r]\<rparr>"

text \<open>
  The answer to a \<open>fetch\<close>: the promise rejects (network failure), or resolves to a
  response with a status, a status text and a body, here already read with the page's
  decoder.
\<close>

record 'b response =
  status :: nat
  statusText :: string
  body :: 'b

datatype 'b outcome = Rejected | Resolved "'b response"

text \<open>\<open>response.ok\<close>\<close>

definition ok :: "'b response \<Rightarrow> bool" where
  "ok r = (200 \<le> status r \<and> status r \<le> 299)"

section \<open>dashboard.js\<close>

record dashboard = window +
  studentNameElement :: string           \<comment> \<open>its text\<close>
  enrolledListElement :: "string list"   \<comment> \<open>the markup assigned to the \<open>innerHTML\<close> of each \<open>li\<close> child\<close>
  availableListElement :: "string list"
  finishedListElement :: "string list"
  statusMessageElement :: element

subsection \<open>Status message (lines 11-40)\<close>

definition setStatusMessage :: "string \<Rightarrow> string \<Rightarrow> dashboard \<Rightarrow> dashboard" where
  "setStatusMessage message type d =
     (let e = (statusMessageElement d)\<lparr>textContent := message\<rparr> in
      if type = ''success'' then
        d\<lparr>statusMessageElement :=
            e\<lparr>classList := classList_add (classList_remove (classList e) [''error-message''])
                                           ''success-message''\<rparr>\<rparr>
      else if type = ''error'' then
        d\<lparr>statusMessageElement :=
            e\<lparr>classList := classList_add (classList_remove (classList e) [''success-message''])
                                           ''error-message''\<rparr>\<rparr>
      else
        d\<lparr>statusMessageElement :=
            e\<lparr>classList := classList_remove (classList e)
                                [''success-message'', ''error-message'']\<rparr>\<rparr>)"

text \<open>The test of lines 29-34 on the current text.\<close>

definition isActionMessage :: "string \<Rightarrow> bool" where
  "isActionMessage currentText =
     (startsWith currentText ''Marking'' \<or>
      includesStr currentText ''finished!'' \<or>
      startsWith currentText ''Disenroll'' \<or>
      startsWith currentText ''Successfully disenrolled!'' \<or>
      startsWith currentText ''Enrollment'' \<or>
      startsWith currentText ''Successfully enrolled!'')"

definition clearStatusMessageAfterDelay :: "nat \<Rightarrow> dashboard \<Rightarrow> dashboard" where
  "clearStatusMessageAfterDelay delay d =
     (let currentText = textContent (statusMessageElement d) in
      if isActionMessage currentText then setTimeout ClearStatus delay d else d)"

text \<open>Running a callback, and the firing of the \<open>i\<close>-th pending timer.\<close>

fun runCallback :: "callback \<Rightarrow> dashboard \<Rightarrow> dashboard" where
  "runCallback ClearStatus d =
     d\<lparr>statusMessageElement :=
         (statusMessageElement d)\<lparr>textContent := [],
            classList := classList_remove (classList (statusMessageElement d))
                           [''success-message'', ''error-message'']\<rparr>\<rparr>"
| "runCallback GoToLogin d = d\<lparr>href := ''/login.html''\<rparr>"

definition fireTimer :: "nat \<Rightarrow> dashboard \<Rightarrow> dashboard" where
  "fireTimer i d =
     (if i < length (timers d)
      then runCallback (snd (timers d ! i)) (d\<lparr>timers := take i (timers d) @ drop (Suc i) (timers d)\<rparr>)
      else d)"

text \<open>A sequence of calls of \<open>setStatusMessage\<close>, each with its message and type.\<close>

fun setStatusMessages :: "(string \<times> string) list \<Rightarrow> dashboard \<Rightarrow> dashboard" where
  "setStatusMessages [] d = d"
| "setStatusMessages ((message, type) # calls) d =
     setStatusMessages calls (setStatusMessage message type d)"

subsection \<open>Rendering a course list (lines 43-79)\<close>

text \<open>
  A course of the dashboard resource: \<open>{course_id, name?, description?}\<close>. The id is the
  value of the \<open>INT\<close> column \<open>course_id\<close>, a natural number far below \<open>2^53\<close>.
\<close>

record course =
  course_id :: nat
  name :: "string option"
  description :: "string option"

text \<open>Lines 47-51: the text of the single \<open>li\<close> written for an empty list.\<close>

definition placeholder :: "string \<Rightarrow> string" where
  "placeholder courseStatusType =
     (let message = ''No courses found.'' in
      if courseStatusType = ''enrolled'' then ''No courses currently enrolled.''
      else if courseStatusType = ''available'' then ''No courses available for enrollment.''
      else if courseStatusType = ''finished'' then ''No courses finished yet.''
      else message)"

text \<open>Lines 57-68.\<close>

definition buttonsHtml :: "string \<Rightarrow> course \<Rightarrow> string" where
  \<open>buttonsHtml courseStatusType course =
     (if courseStatusType = ''available'' then
        ''<button class="enroll-button" data-course-id="'' @ numberToString (course_id course) @
        ''">Enroll</button>''
      else if courseStatusType = ''enrolled'' then
        ''\<newline>                    <button class="mark-finished-button" data-course-id="'' @
        numberToString (course_id course) @ ''">Mark as Finished</button>'' @
        ''\<newline>                    <button class="disenroll-button" data-course-id="'' @
        numberToString (course_id course) @ ''">Disenroll</button>'' @
        ''\<newline>                ''
      else if courseStatusType = ''finished'' then
        ''<span class="status-badge">Completed</span>''
      else [])\<close>

text \<open>
  Lines 70-76: the markup assigned to the \<open>innerHTML\<close> of the \<open>li\<close> of one course. The name
  and the description are spliced in as they are, without escaping.
\<close>

definition listItem :: "string \<Rightarrow> course \<Rightarrow> string" where
  \<open>listItem courseStatusType course =
     ''\<newline>                <h3>'' @ orElse (name course) ''Unnamed Course'' @ ''</h3> '' @
     ''\<newline>                <p>'' @ orElse (description course) ''No description available.'' @
     ''</p>'' @
     ''\<newline>                <div class="course-actions">'' @
     ''\<newline>                    '' @ buttonsHtml courseStatusType course @
     ''\<newline>                </div>'' @
     ''\<newline>            ''\<close>

text \<open>
  \<open>renderCourses(courses, targetElement, courseStatusType)\<close>; \<open>courses\<close> is \<open>None\<close> when
  it is \<open>null\<close> or \<open>undefined\<close>. The result is the new content of \<open>targetElement\<close>.
\<close>

definition renderCourses :: "course list option \<Rightarrow> string list \<Rightarrow> string \<Rightarrow> string list" where
  "renderCourses courses targetElement courseStatusType =
     (let targetElement = [] in
      case courses of
        None \<Rightarrow> [placeholder courseStatusType]
      | Some cs \<Rightarrow>
          if length cs = 0 then [placeholder courseStatusType]
          else foldl (\<lambda>targetElement course. targetElement @ [listItem courseStatusType course])
                 targetElement cs)"

subsection \<open>Reading the markup of a row\<close>





subsection \<open>Loading the dashboard (lines 81-115)\<close>

datatype student = Student "string option"   \<comment> \<open>\<open>{name?}\<close>\<close>

record dashboard_data =
  student :: "student option"
  enrolled :: "course list option"
  available :: "course list option"
  finished :: "course list option"

text \<open>\<open>list || []\<close>\<close>

fun orEmpty :: "course list option \<Rightarrow> course list" where
  "orEmpty None = []"
| "orEmpty (Some cs) = cs"

text \<open>The \<open>catch\<close> block, lines 108-114.\<close>

definition fetchDashboardData_catch :: "dashboard \<Rightarrow> dashboard" where
  "fetchDashboardData_catch d =
     (let d = console_log Error ''Error during fetchDashboardData:'' d;
          d = setStatusMessage ''Could not connect to server to load dashboard.'' ''error'' d
      in d\<lparr>enrolledListElement := [''Error loading enrolled courses.''],
            availableListElement := [''Error loading available courses.''],
            finishedListElement := [''Error loading finished courses.'']\<rparr>)"

text \<open>
  \<open>fetchDashboardData()\<close>, given the answer to its request. The body of a response is
  \<open>None\<close> when \<open>response.json()\<close> rejects or yields \<open>null\<close> (then \<open>data.student\<close> throws): both
  end in the \<open>catch\<close> block.
\<close>

definition fetchDashboardData :: "dashboard_data option outcome \<Rightarrow> dashboard \<Rightarrow> dashboard" where
  "fetchDashboardData answer d =
     (let d = fetch (Get ''/api/dashboard'') d in
      case answer of
        Rejected \<Rightarrow> fetchDashboardData_catch d
      | Resolved response \<Rightarrow>
          if ok response then
            (case body response of
               None \<Rightarrow> fetchDashboardData_catch d
             | Some data \<Rightarrow>
                 d\<lparr>studentNameElement :=
                      (case student data of
                         None \<Rightarrow> ''User''
                       | Some (Student n) \<Rightarrow> orElse n ''User''),
                    enrolledListElement :=
                      renderCourses (Some (orEmpty (enrolled data))) (enrolledListElement d) ''enrolled'',
                    availableListElement :=
                      renderCourses (Some (orEmpty (available data))) (availableListElement d) ''available'',
                    finishedListElement :=
                      renderCourses (Some (orEmpty (finished data))) (finishedListElement d) ''finished''\<rparr>)
          else if status response = 401 \<or> status response = 403 then
            (let d = console_log Log ''Unauthorized access, redirecting to login.'' d;
                 d = setStatusMessage ''Session expired or unauthorized. Redirecting to login...'' ''error'' d
             in setTimeout GoToLogin 2000 d)
          else
            (let d = console_log Error ''Failed to fetch dashboard data:'' d;
                 d = setStatusMessage
                       (''Error loading dashboard: '' @
                          (if statusText response = [] then ''Unknown error'' else statusText response))
                       ''error'' d
             in d\<lparr>enrolledListElement := [''Could not load enrolled courses.''],
                   availableListElement := [''Could not load available courses.''],
                   finishedListElement := [''Could not load finished courses.'']\<rparr>))"

subsection \<open>Enrolling, disenrolling, marking as finished (lines 117-187)\<close>

text \<open>
  \<open>responseData\<close>, the result of \<open>response.json().catch(() => null)\<close>: \<open>JsonNull\<close> when the
  body is not JSON (or is \<open>null\<close>), otherwise a value of the interface \<open>{message?}\<close> with
  its \<open>message\<close>.
\<close>

datatype json_reply = JsonNull | JsonObject "string option"

text \<open>\<open>responseData?.message\<close>\<close>

fun optionalMessage :: "json_reply \<Rightarrow> string option" where
  "optionalMessage JsonNull = None"
| "optionalMessage (JsonObject message) = message"

text \<open>
  Each action is given the answer to its own request and the answer to the request of
  the \<open>fetchDashboardData()\<close> it may call. Reading \<open>responseData.message\<close> of \<open>null\<close>
  throws inside the \<open>try\<close> and is handled by the \<open>catch\<close> block.
\<close>

definition enrollInCourse_catch :: "dashboard \<Rightarrow> dashboard" where
  "enrollInCourse_catch d =
     setStatusMessage ''An error occurred during enrollment.'' ''error''
       (console_log Error ''Error during enrollInCourse:'' d)"

definition enrollInCourse ::
  "string \<Rightarrow> json_reply outcome \<Rightarrow> dashboard_data option outcome \<Rightarrow> dashboard \<Rightarrow> dashboard" where
  "enrollInCourse courseId answer reload d =
     (let d = setStatusMessage ''Enrolling...'' ''info'' d;
          d = fetch (Post ''/api/enroll'' [(''courseId'', courseId)]) d;
          d = (case answer of
                 Rejected \<Rightarrow> enrollInCourse_catch d
               | Resolved response \<Rightarrow>
                   (let responseData = body response in
                    if ok response then
                      (case responseData of
                         JsonNull \<Rightarrow> enrollInCourse_catch d
                       | JsonObject message \<Rightarrow>
                           fetchDashboardData reload
                             (setStatusMessage (orElse message ''Successfully enrolled!'') ''success'' d))
                    else
                      console_log Error ''Enrollment failed:''
                        (setStatusMessage
                           (orElse (optionalMessage responseData)
                              (''Enrollment failed (Status: '' @ numberToString (status response) @ '')''))
                           ''error'' d)))
      in clearStatusMessageAfterDelay 3000 d)"

definition disenrollFromCourse_catch :: "dashboard \<Rightarrow> dashboard" where
  "disenrollFromCourse_catch d =
     setStatusMessage ''An error occurred during disenrollment.'' ''error''
       (console_log Error ''Error during disenrollFromCourse:'' d)"

definition disenrollFromCourse ::
  "string \<Rightarrow> json_reply outcome \<Rightarrow> dashboard_data option outcome \<Rightarrow> dashboard \<Rightarrow> dashboard" where
  "disenrollFromCourse courseId answer reload d =
     (let d = setStatusMessage ''Disenrolling...'' ''info'' d;
          d = fetch (Post ''/api/disenroll'' [(''courseId'', courseId)]) d;
          d = (case answer of
                 Rejected \<Rightarrow> disenrollFromCourse_catch d
               | Resolved response \<Rightarrow>
                   (let responseData = body response in
                    if ok response then
                      (case responseData of
                         JsonNull \<Rightarrow> disenrollFromCourse_catch d
                       | JsonObject message \<Rightarrow>
                           fetchDashboardData reload
                             (setStatusMessage (orElse message ''Successfully disenrolled!'') ''success'' d))
                    else
                      console_log Error ''Disenrollment failed:''
                        (setStatusMessage
                           (orElse (optionalMessage responseData)
                              (''Disenrollment failed (Status: '' @ numberToString (status response) @ '')''))
                           ''error'' d)))
      in clearStatusMessageAfterDelay 3000 d)"

definition markCourseAsFinished_catch :: "dashboard \<Rightarrow> dashboard" where
  "markCourseAsFinished_catch d =
     setStatusMessage ''An error occurred while marking the course as finished.'' ''error''
       (console_log Error ''Error during markCourseAsFinished:'' d)"

definition markCourseAsFinished ::
  "string \<Rightarrow> json_reply outcome \<Rightarrow> dashboard_data option outcome \<Rightarrow> dashboard \<Rightarrow> dashboard" where
  "markCourseAsFinished courseId answer reload d =
     (let d = setStatusMessage ''Marking as finished...'' ''info'' d;
          d = fetch (Post ''/api/course/finish'' [(''courseId'', courseId)]) d;
          d = (case answer of
                 Rejected \<Rightarrow> markCourseAsFinished_catch d
               | Resolved response \<Rightarrow>
                   (let responseData = body response in
                    if ok response then
                      (case responseData of
                         JsonNull \<Rightarrow> markCourseAsFinished_catch d
                       | JsonObject message \<Rightarrow>
                           fetchDashboardData reload
                             (setStatusMessage (orElse message ''Course marked as finished!'') ''success'' d))
                    else
                      console_log Error ''Mark as finished failed:''
                        (setStatusMessage
                           (orElse (optionalMessage responseData)
                              (''Failed to mark as finished (Status: '' @ numberToString (status response) @ '')''))
                           ''error'' d)))
      in clearStatusMessageAfterDelay 3000 d)"

subsection \<open>Click handlers of the two lists (lines 191-223)\<close>

text \<open>\<open>event.target\<close>: its class list and \<open>dataset.courseId\<close> (\<open>None\<close> without the attribute).\<close>

record target =
  targetClassList :: "string list"
  datasetCourseId :: "string option"

definition availableListClick ::
  "target \<Rightarrow> json_reply outcome \<Rightarrow> dashboard_data option outcome \<Rightarrow> dashboard \<Rightarrow> dashboard" where
  "availableListClick tgt answer reload d =
     (if classList_contains (targetClassList tgt) ''enroll-button'' then
        (case datasetCourseId tgt of
           Some (c # cs) \<Rightarrow> enrollInCourse (c # cs) answer reload d
         | _ \<Rightarrow>
             setStatusMessage ''Error: Could not identify course to enroll.'' ''error''
               (console_log Error ''Enroll button clicked but course ID not found.'' d))
      else d)"

definition enrolledListClick ::
  "target \<Rightarrow> json_reply outcome \<Rightarrow> dashboard_data option outcome \<Rightarrow> dashboard \<Rightarrow> dashboard" where
  "enrolledListClick tgt answer reload d =
     (case datasetCourseId tgt of
        Some (c # cs) \<Rightarrow>
          if classList_contains (targetClassList tgt) ''disenroll-button'' then
            disenrollFromCourse (c # cs) answer reload d
          else if classList_contains (targetClassList tgt) ''mark-finished-button'' then
            markCourseAsFinished (c # cs) answer reload d
          else d
      | _ \<Rightarrow> d)"

section \<open>signup.js\<close>

text \<open>The values of the four inputs at the time of the submit event.\<close>

record signup_form =
  nameInput :: string
  emailInput :: string
  passwordInput :: string
  confirmPasswordInput :: string

record signup_page = window +
  messageArea :: element

text \<open>\<open>messageArea.textContent = text; messageArea.classList.add(cls)\<close>\<close>

definition showMessage :: "string \<Rightarrow> string \<Rightarrow> signup_page \<Rightarrow> signup_page" where
  "showMessage text cls p =
     p\<lparr>messageArea := (messageArea p)\<lparr>textContent := text,
                          classList := classList_add (classList (messageArea p)) cls\<rparr>\<rparr>"

text \<open>The \<open>catch\<close> block, lines 70-74.\<close>

definition signup_catch :: "signup_page \<Rightarrow> signup_page" where
  "signup_catch p =
     showMessage ''An error occurred during signup. Please try again later.'' ''error-message''
       (console_log Error ''Signup request failed:'' p)"

text \<open>
  The submit handler (lines 11-75), given the answer to its request. The body is
  \<open>JsonNull\<close> when \<open>response.json()\<close> rejects or yields \<open>null\<close>: both throw inside the \<open>try\<close>.
\<close>

definition signupSubmit :: "signup_form \<Rightarrow> json_reply outcome \<Rightarrow> signup_page \<Rightarrow> signup_page" where
  "signupSubmit form answer p =
     (let name = trim (nameInput form);
          email = trim (emailInput form);
          password = passwordInput form;
          confirmPassword = confirmPasswordInput form;
          p = p\<lparr>messageArea := \<lparr>textContent = [], classList = [''message-area'']\<rparr>\<rparr>
      in
      if name = [] \<or> email = [] \<or> password = [] \<or> confirmPassword = [] then
        showMessage ''Please fill in all fields.'' ''error-message'' p
      else if password \<noteq> confirmPassword then
        showMessage ''Passwords do not match.'' ''error-message'' p
      else if length password < 6 then
        showMessage ''Password must be at least 6 characters long.'' ''error-message'' p
      else
        (let p = fetch (Post ''/api/signup''
                          [(''name'', name), (''email'', email), (''password'', password)]) p
         in case answer of
              Rejected \<Rightarrow> signup_catch p
            | Resolved response \<Rightarrow>
                (case body response of
                   JsonNull \<Rightarrow> signup_catch p
                 | JsonObject message \<Rightarrow>
                     if ok response then
                       setTimeout GoToLogin 2000
                         (console_log Log ''Signup successful:''
                            (showMessage (orElse message ''Signup successful! Redirecting to login...'')
                               ''success-message'' p))
                     else
                       console_log Error ''Signup failed:''
                         (showMessage
                            (orElse message
                               (''Signup failed (Status: '' @ numberToString (status response) @ '')''))
                            ''error-message'' p))))"

section \<open>What an action leaves unchanged\<close>

text \<open>The three bucket lists of \<open>d'\<close> hold what those of \<open>d\<close> hold.\<close>

definition bucketsKept :: "dashboard \<Rightarrow> dashboard \<Rightarrow> bool" where
  "bucketsKept d d' =
     (enrolledListElement d' = enrolledListElement d \<and>
      availableListElement d' = availableListElement d \<and>
      finishedListElement d' = finishedListElement d)"

text \<open>
  What a failed action leaves: the buckets and the student name as in \<open>d\<close>, one more request
  \<open>req\<close>, and the error status \<open>message\<close>.
\<close>

definition failureShown :: "dashboard \<Rightarrow> request \<Rightarrow> string \<Rightarrow> dashboard \<Rightarrow> bool" where
  "failureShown d req message d' =
     (bucketsKept d d' \<and>
      studentNameElement d' = studentNameElement d \<and>
      fetched d' = fetched d @ [req] \<and>
      textContent (statusMessageElement d') = message \<and>
      classList_contains (classList (statusMessageElement d')) ''error-message'' \<and>
      \<not> classList_contains (classList (statusMessageElement d')) ''success-message'')"

section \<open>Concrete inputs\<close>

text \<open>A dashboard page before anything was loaded, and one whose status element carries both kind classes.\<close>

definition blankDashboard :: dashboard where
  "blankDashboard =
     \<lparr>timers = [], href = ''/home.html'', console = [], fetched = [],
      studentNameElement = [], enrolledListElement = [], availableListElement = [],
      finishedListElement = [],
      statusMessageElement = \<lparr>textContent = [], classList = [''message-area'']\<rparr>\<rparr>"

definition bothKinds :: dashboard where
  "bothKinds = blankDashboard\<lparr>statusMessageElement :=
      \<lparr>textContent = ''Loading...'',
       classList = [''message-area'', ''success-message'', ''error-message'']\<rparr>\<rparr>"

definition logic :: course where
  "logic = \<lparr>course_id = 7, name = Some ''Logic'', description = None\<rparr>"

definition unnamed :: course where
  "unnamed = \<lparr>course_id = 12, name = Some [], description = Some ''Sets and functions''\<rparr>"

definition marked :: course where
  \<open>marked = \<lparr>course_id = 3, name = Some ''<button class="enroll-button">Algebra</button>'',
              description = None\<rparr>\<close>

text \<open>Answers of the server, and a dashboard page after a successful load.\<close>

definition sampleData :: "dashboard_data option outcome" where
  "sampleData = Resolved \<lparr>status = 200, statusText = ''OK'',
     body = Some \<lparr>student = Some (Student (Some ''Ada'')), enrolled = Some [logic],
                   available = Some [unnamed], finished = None\<rparr>\<rparr>"

definition loadedDashboard :: dashboard where
  "loadedDashboard = fetchDashboardData sampleData blankDashboard"

definition reply :: "nat \<Rightarrow> string \<Rightarrow> json_reply \<Rightarrow> json_reply outcome" where
  "reply code text b = Resolved \<lparr>status = code, statusText = text, body = b\<rparr>"

definition blankSignup :: signup_page where
  "blankSignup =
     \<lparr>timers = [], href = ''/signup.html'', console = [], fetched = [],
      messageArea = \<lparr>textContent = [], classList = [''message-area'']\<rparr>\<rparr>"

text \<open>Forms, answers, a click target and the states of a run used as concrete inputs.\<close>

definition emptyName :: signup_form where
  "emptyName = \<lparr>nameInput = [], emailInput = ''a@b.com'', passwordInput = ''pw123456'',
                 confirmPasswordInput = ''pw123456''\<rparr>"

definition mismatch :: signup_form where
  "mismatch = \<lparr>nameInput = ''Ada'', emailInput = ''a@b.com'', passwordInput = ''abcdef'',
                confirmPasswordInput = ''abcdxx''\<rparr>"

definition shortPassword :: signup_form where
  "shortPassword = \<lparr>nameInput = ''Ada'', emailInput = ''a@b.com'', passwordInput = ''abc'',
                     confirmPasswordInput = ''abc''\<rparr>"

definition validForm :: signup_form where
  "validForm = \<lparr>nameInput = '' Ada '', emailInput = ''a@b.com'', passwordInput = ''pw123456'',
                 confirmPasswordInput = ''pw123456''\<rparr>"

definition conflict :: "json_reply outcome" where
  "conflict = reply 409 ''CONFLICT'' (JsonObject (Some ''Already enrolled''))"

definition serverError :: "json_reply outcome" where
  "serverError = reply 500 ''INTERNAL SERVER ERROR'' JsonNull"

definition enrollButtonWithoutId :: target where
  "enrollButtonWithoutId = \<lparr>targetClassList = [''enroll-button''], datasetCourseId = None\<rparr>"

definition afterEnrolment :: dashboard where
  "afterEnrolment = enrollInCourse ''12'' (reply 200 ''OK'' (JsonObject None)) sampleData loadedDashboard"

definition afterBadClick :: dashboard where
  "afterBadClick = availableListClick enrollButtonWithoutId Rejected Rejected afterEnrolment"

section \<open>Properties\<close>

subsection \<open>The status element\<close>

lemma setStatusMessage_text [simp]:
  "textContent (statusMessageElement (setStatusMessage message type d)) = message"
  by (simp add: setStatusMessage_def Let_def)

lemma setStatusMessage_classes:
  "set (classList (statusMessageElement (setStatusMessage message type d))) =
     (if type = ''success''
        then insert ''success-message'' (set (classList (statusMessageElement d)) - {''error-message''})
      else if type = ''error''
        then insert ''error-message'' (set (classList (statusMessageElement d)) - {''success-message''})
      else set (classList (statusMessageElement d)) - {''success-message'', ''error-message''})"
  by (auto simp add: setStatusMessage_def Let_def classList_add_def classList_remove_def)

lemma setStatusMessages_at_most_one:
  "calls \<noteq> [] \<Longrightarrow>
     \<not> (''success-message'' \<in> set (classList (statusMessageElement (setStatusMessages calls d))) \<and>
        ''error-message'' \<in> set (classList (statusMessageElement (setStatusMessages calls d))))"
proof (induction calls arbitrary: d)
  case Nil
  then show ?case by simp
next
  case (Cons call calls)
  obtain message type where call: "call = (message, type)" by (cases call)
  show ?case
  proof (cases "calls = []")
    case True
    then show ?thesis by (simp add: call setStatusMessage_classes)
  next
    case False
    then show ?thesis using Cons.IH [of "setStatusMessage message type d"] by (simp add: call)
  qed
qed

text \<open>
  C10: after a call of \<open>setStatusMessage\<close> with type \<open>success\<close> the status element carries
  \<open>success-message\<close> and not \<open>error-message\<close>; with type \<open>error\<close> it carries \<open>error-message\<close>
  and not \<open>success-message\<close>; with any other type it carries neither. Hence after any
  non-empty sequence of calls, from any state, the two classes are never both present.
\<close>

theorem status_kind_classes_exclusive:
  "classList_contains (classList (statusMessageElement (setStatusMessage message ''success'' d))) ''success-message''
   \<and> \<not> classList_contains (classList (statusMessageElement (setStatusMessage message ''success'' d))) ''error-message''
   \<and> classList_contains (classList (statusMessageElement (setStatusMessage message ''error'' d))) ''error-message''
   \<and> \<not> classList_contains (classList (statusMessageElement (setStatusMessage message ''error'' d))) ''success-message''
   \<and> (type \<noteq> ''success'' \<and> type \<noteq> ''error'' \<longrightarrow>
        \<not> classList_contains (classList (statusMessageElement (setStatusMessage message type d))) ''success-message''
        \<and> \<not> classList_contains (classList (statusMessageElement (setStatusMessage message type d))) ''error-message'')
   \<and> (calls \<noteq> [] \<longrightarrow>
        \<not> (classList_contains (classList (statusMessageElement (setStatusMessages calls d))) ''success-message''
           \<and> classList_contains (classList (statusMessageElement (setStatusMessages calls d))) ''error-message''))"
  using setStatusMessages_at_most_one [of calls d]
  by (simp add: classList_contains_def setStatusMessage_classes)

theorem status_kind_classes_exclusive_witness:
  "''info'' \<noteq> ''success'' \<and> ''info'' \<noteq> ''error''
   \<and> [(''Enrolling...'', ''info''), (''Enrolled!'', ''success''), (''Already enrolled'', ''error'')] \<noteq> []
   \<and> classList (statusMessageElement (setStatusMessage ''Enrolling...'' ''info'' bothKinds)) = [''message-area'']
   \<and> classList (statusMessageElement (setStatusMessages
        [(''Enrolling...'', ''info''), (''Enrolled!'', ''success''), (''Already enrolled'', ''error'')] bothKinds))
       = [''message-area'', ''error-message'']
   \<and> \<not> (classList_contains (classList (statusMessageElement (setStatusMessages
        [(''Enrolling...'', ''info''), (''Enrolled!'', ''success''), (''Already enrolled'', ''error'')] bothKinds))) ''success-message''
      \<and> classList_contains (classList (statusMessageElement (setStatusMessages
        [(''Enrolling...'', ''info''), (''Enrolled!'', ''success''), (''Already enrolled'', ''error'')] bothKinds))) ''error-message'')"
  using status_kind_classes_exclusive [of "''Enrolling...''" bothKinds "''info''"
    "[(''Enrolling...'', ''info''), (''Enrolled!'', ''success''), (''Already enrolled'', ''error'')]"]
  by (simp add: bothKinds_def blankDashboard_def setStatusMessage_def classList_add_def
      classList_remove_def Let_def)

subsection \<open>Rendering\<close>



lemma digit_range: "digit d \<in> set ''0123456789''"
  unfolding digit_def by (rule nth_mem) simp

lemma numberToString_digits: "set (numberToString n) \<subseteq> set ''0123456789''"
proof (induction n rule: numberToString.induct)
  case (1 n)
  show ?case
  proof (cases "n < 10")
    case True
    then show ?thesis using digit_range [of n] by (subst numberToString.simps) simp
  next
    case False
    then show ?thesis using 1 digit_range [of "n mod 10"] by (subst numberToString.simps) simp
  qed
qed

lemma open_tag_not_digit: "CHR ''<'' \<notin> set (numberToString n)"
  using numberToString_digits [of n] by auto

lemma occurrences_skip:
  "q \<notin> set xs \<Longrightarrow> occurrences (q # qs) (xs @ ys) = occurrences (q # qs) ys"
  by (induction xs) auto

lemma buttons_available:
  \<open>occurrences ''<button'' (buttonsHtml ''available'' course) = 1\<close>
  by (simp add: buttonsHtml_def occurrences_skip [OF open_tag_not_digit])

lemma buttons_enrolled:
  \<open>occurrences ''<button'' (buttonsHtml ''enrolled'' course) = 2\<close>
  by (simp add: buttonsHtml_def occurrences_skip [OF open_tag_not_digit])

lemma buttons_finished:
  \<open>occurrences ''<button'' (buttonsHtml ''finished'' course) = 0\<close>
  by (simp add: buttonsHtml_def)

lemma renderCourses_absent: "renderCourses None targetElement t = [placeholder t]"
  by (simp add: renderCourses_def)

lemma renderCourses_none: "renderCourses (Some []) targetElement t = [placeholder t]"
  by (simp add: renderCourses_def)

lemma placeholder_cases:
  "placeholder t =
     (if t = ''enrolled'' then ''No courses currently enrolled.''
      else if t = ''available'' then ''No courses available for enrollment.''
      else if t = ''finished'' then ''No courses finished yet.''
      else ''No courses found.'')"
  by (simp only: placeholder_def Let_def)

text \<open>
  C5: for every bucket, rendering an absent (\<open>null\<close>, \<open>undefined\<close>) or empty course list
  leaves exactly one placeholder row in the target list, whatever the list held before; its
  text is \<open>No courses currently enrolled.\<close> for \<open>enrolled\<close>, \<open>No courses available for
  enrollment.\<close> for \<open>available\<close>, \<open>No courses finished yet.\<close> for \<open>finished\<close> and
  \<open>No courses found.\<close> for any other bucket value.
\<close>

theorem renderCourses_empty_placeholder:
  "courses = None \<or> courses = Some [] \<Longrightarrow>
     renderCourses courses targetElement courseStatusType =
       [if courseStatusType = ''enrolled'' then ''No courses currently enrolled.''
        else if courseStatusType = ''available'' then ''No courses available for enrollment.''
        else if courseStatusType = ''finished'' then ''No courses finished yet.''
        else ''No courses found.'']"
  by (erule disjE) (simp_all only: renderCourses_absent renderCourses_none placeholder_cases)

theorem renderCourses_empty_placeholder_witness:
  "(Some [] = None \<or> Some [] = Some ([] :: course list))
   \<and> renderCourses (Some []) [''Loading...''] ''finished'' = [''No courses finished yet.'']
   \<and> (None = None \<or> None = Some ([] :: course list))
   \<and> renderCourses None [''Loading...'', ''Loading...''] ''archived'' = [''No courses found.'']"
  using renderCourses_empty_placeholder [of "Some []" "[''Loading...'']" "''finished''"]
    renderCourses_empty_placeholder [of None "[''Loading...'', ''Loading...'']" "''archived''"]
  by simp

text \<open>
  C7: \<open>renderCourses\<close> is idempotent. Rendering replaces what the target list held, so
  rendering again with the same courses and bucket gives the same content, and the content
  does not depend on what the list held before.
\<close>

theorem renderCourses_idempotent:
  "renderCourses courses (renderCourses courses targetElement courseStatusType) courseStatusType =
     renderCourses courses targetElement courseStatusType
   \<and> renderCourses courses targetElement courseStatusType =
     renderCourses courses otherContent courseStatusType"
  by (simp add: renderCourses_def)


















subsection \<open>What the status functions leave alone\<close>

lemma setStatusMessage_keeps [simp]:
  "enrolledListElement (setStatusMessage m t d) = enrolledListElement d"
  "availableListElement (setStatusMessage m t d) = availableListElement d"
  "finishedListElement (setStatusMessage m t d) = finishedListElement d"
  "studentNameElement (setStatusMessage m t d) = studentNameElement d"
  "timers (setStatusMessage m t d) = timers d"
  "href (setStatusMessage m t d) = href d"
  "console (setStatusMessage m t d) = console d"
  "fetched (setStatusMessage m t d) = fetched d"
  by (simp_all add: setStatusMessage_def Let_def)

lemma clearStatusMessageAfterDelay_keeps [simp]:
  "enrolledListElement (clearStatusMessageAfterDelay n d) = enrolledListElement d"
  "availableListElement (clearStatusMessageAfterDelay n d) = availableListElement d"
  "finishedListElement (clearStatusMessageAfterDelay n d) = finishedListElement d"
  "studentNameElement (clearStatusMessageAfterDelay n d) = studentNameElement d"
  "statusMessageElement (clearStatusMessageAfterDelay n d) = statusMessageElement d"
  "href (clearStatusMessageAfterDelay n d) = href d"
  "console (clearStatusMessageAfterDelay n d) = console d"
  "fetched (clearStatusMessageAfterDelay n d) = fetched d"
  by (simp_all add: clearStatusMessageAfterDelay_def setTimeout_def Let_def)

lemma unauthorized_not_ok: "status response = 401 \<or> status response = 403 \<Longrightarrow> \<not> ok response"
  by (auto simp add: ok_def)

subsection \<open>Loading the dashboard\<close>

text \<open>
  C9: when the dashboard request is answered with status 401 or 403, \<open>fetchDashboardData\<close>
  sets the status text \<open>Session expired or unauthorized. Redirecting to login...\<close> as an
  error, leaves the three bucket lists and the student name as they were, issues no request
  besides the one that was answered, and sets one timer of 2000 ms whose firing sets the
  location to \<open>/login.html\<close>.
\<close>

theorem fetchDashboardData_unauthorized:
  "status response = 401 \<or> status response = 403 \<Longrightarrow>
     textContent (statusMessageElement (fetchDashboardData (Resolved response) d)) =
       ''Session expired or unauthorized. Redirecting to login...''
     \<and> classList_contains (classList (statusMessageElement (fetchDashboardData (Resolved response) d)))
           ''error-message''
     \<and> bucketsKept d (fetchDashboardData (Resolved response) d)
     \<and> studentNameElement (fetchDashboardData (Resolved response) d) = studentNameElement d
     \<and> fetched (fetchDashboardData (Resolved response) d) = fetched d @ [Get ''/api/dashboard'']
     \<and> href (fetchDashboardData (Resolved response) d) = href d
     \<and> timers (fetchDashboardData (Resolved response) d) = timers d @ [(2000, GoToLogin)]
     \<and> href (fireTimer (length (timers d)) (fetchDashboardData (Resolved response) d)) = ''/login.html''"
proof -
  assume st: "status response = 401 \<or> status response = 403"
  have eq: "fetchDashboardData (Resolved response) d =
      setTimeout GoToLogin 2000
        (setStatusMessage ''Session expired or unauthorized. Redirecting to login...'' ''error''
           (console_log Log ''Unauthorized access, redirecting to login.''
              (fetch (Get ''/api/dashboard'') d)))"
    using st unauthorized_not_ok [OF st] by (simp add: fetchDashboardData_def Let_def)
  show ?thesis
    unfolding eq
    by (simp add: setTimeout_def console_log_def fetch_def bucketsKept_def fireTimer_def
        classList_contains_def setStatusMessage_classes)
qed

theorem fetchDashboardData_unauthorized_witness:
  "((401::nat) = 401 \<or> (401::nat) = 403)
   \<and> textContent (statusMessageElement (fetchDashboardData
        (Resolved \<lparr>status = 401, statusText = ''UNAUTHORIZED'', body = None\<rparr>) loadedDashboard)) =
       ''Session expired or unauthorized. Redirecting to login...''
   \<and> enrolledListElement (fetchDashboardData
        (Resolved \<lparr>status = 401, statusText = ''UNAUTHORIZED'', body = None\<rparr>) loadedDashboard) =
       enrolledListElement loadedDashboard
   \<and> timers (fetchDashboardData
        (Resolved \<lparr>status = 401, statusText = ''UNAUTHORIZED'', body = None\<rparr>) loadedDashboard) =
       [(2000, GoToLogin)]
   \<and> href (fireTimer 0 (fetchDashboardData
        (Resolved \<lparr>status = 401, statusText = ''UNAUTHORIZED'', body = None\<rparr>) loadedDashboard)) =
       ''/login.html''"
  using fetchDashboardData_unauthorized
    [of "\<lparr>status = 401, statusText = ''UNAUTHORIZED'', body = None\<rparr>" loadedDashboard]
  by (simp add: bucketsKept_def loadedDashboard_def sampleData_def blankDashboard_def
      fetchDashboardData_def ok_def fetch_def Let_def)

subsection \<open>Signup\<close>

lemma signup_catch_fetched [simp]: "fetched (signup_catch p) = fetched p"
  by (simp add: signup_catch_def showMessage_def console_log_def)

text \<open>
  C8: the submit handler of the signup form checks in order, on the trimmed name and email
  and on the password and its confirmation as typed: if one of the four is empty the message
  is \<open>Please fill in all fields.\<close>; otherwise if the password differs from its confirmation
  it is \<open>Passwords do not match.\<close>; otherwise if the password has fewer than 6 characters it
  is \<open>Password must be at least 6 characters long.\<close>. In these three cases no request is
  issued. Only when all checks pass, the POST to \<open>/api/signup\<close> is issued.
\<close>

theorem signup_validation:
  "let name = trim (nameInput form);
       email = trim (emailInput form);
       password = passwordInput form;
       confirmPassword = confirmPasswordInput form;
       p' = signupSubmit form answer p
   in (name = [] \<or> email = [] \<or> password = [] \<or> confirmPassword = [] \<longrightarrow>
         textContent (messageArea p') = ''Please fill in all fields.''
         \<and> classList (messageArea p') = [''message-area'', ''error-message'']
         \<and> fetched p' = fetched p)
    \<and> (\<not> (name = [] \<or> email = [] \<or> password = [] \<or> confirmPassword = [])
         \<and> password \<noteq> confirmPassword \<longrightarrow>
         textContent (messageArea p') = ''Passwords do not match.''
         \<and> classList (messageArea p') = [''message-area'', ''error-message'']
         \<and> fetched p' = fetched p)
    \<and> (\<not> (name = [] \<or> email = [] \<or> password = [] \<or> confirmPassword = [])
         \<and> password = confirmPassword \<and> length password < 6 \<longrightarrow>
         textContent (messageArea p') = ''Password must be at least 6 characters long.''
         \<and> classList (messageArea p') = [''message-area'', ''error-message'']
         \<and> fetched p' = fetched p)
    \<and> (\<not> (name = [] \<or> email = [] \<or> password = [] \<or> confirmPassword = [])
         \<and> password = confirmPassword \<and> \<not> length password < 6 \<longrightarrow>
         fetched p' = fetched p @
           [Post ''/api/signup'' [(''name'', name), (''email'', email), (''password'', password)]])"
  by (simp add: signupSubmit_def Let_def showMessage_def classList_add_def fetch_def
      console_log_def setTimeout_def split: outcome.splits json_reply.splits)

theorem signup_validation_witness:
  "trim (nameInput emptyName) = []
   \<and> textContent (messageArea (signupSubmit emptyName Rejected blankSignup)) = ''Please fill in all fields.''
   \<and> fetched (signupSubmit emptyName Rejected blankSignup) = []
   \<and> passwordInput mismatch \<noteq> confirmPasswordInput mismatch
   \<and> textContent (messageArea (signupSubmit mismatch Rejected blankSignup)) = ''Passwords do not match.''
   \<and> fetched (signupSubmit mismatch Rejected blankSignup) = []
   \<and> length (passwordInput shortPassword) < 6
   \<and> textContent (messageArea (signupSubmit shortPassword Rejected blankSignup)) =
       ''Password must be at least 6 characters long.''
   \<and> fetched (signupSubmit shortPassword Rejected blankSignup) = []
   \<and> \<not> length (passwordInput validForm) < 6
   \<and> fetched (signupSubmit validForm Rejected blankSignup) =
       [Post ''/api/signup'' [(''name'', ''Ada''), (''email'', ''a@b.com''), (''password'', ''pw123456'')]]"
  using signup_validation [of emptyName Rejected blankSignup]
    signup_validation [of mismatch Rejected blankSignup]
    signup_validation [of shortPassword Rejected blankSignup]
    signup_validation [of validForm Rejected blankSignup]
  by (simp add: Let_def emptyName_def mismatch_def shortPassword_def validForm_def blankSignup_def
      trim_def isWhiteSpace_def)

subsection \<open>Clicks\<close>

text \<open>
  C4 (amended): a click in the available list on an element with the class
  \<open>enroll-button\<close> and no (or an empty) course id logs an error, sets the status
  \<open>Error: Could not identify course to enroll.\<close> and issues no request. A click in the
  enrolled list on an element with no (or an empty) course id is ignored: nothing is logged,
  the status is not changed and no request is issued.
\<close>

theorem click_without_course_id:
  "datasetCourseId tgt = None \<or> datasetCourseId tgt = Some [] \<Longrightarrow>
     (classList_contains (targetClassList tgt) ''enroll-button'' \<longrightarrow>
        console (availableListClick tgt answer reload d) =
          console d @ [(Error, ''Enroll button clicked but course ID not found.'')]
        \<and> textContent (statusMessageElement (availableListClick tgt answer reload d)) =
          ''Error: Could not identify course to enroll.''
        \<and> classList_contains (classList (statusMessageElement (availableListClick tgt answer reload d)))
          ''error-message''
        \<and> fetched (availableListClick tgt answer reload d) = fetched d)
     \<and> enrolledListClick tgt answer reload d = d"
  by (auto simp add: availableListClick_def enrolledListClick_def console_log_def
      classList_contains_def setStatusMessage_classes)

theorem click_without_course_id_witness:
  "(datasetCourseId \<lparr>targetClassList = [''enroll-button''], datasetCourseId = None\<rparr> = None
      \<or> datasetCourseId \<lparr>targetClassList = [''enroll-button''], datasetCourseId = None\<rparr> = Some [])
   \<and> classList_contains (targetClassList \<lparr>targetClassList = [''enroll-button''], datasetCourseId = None\<rparr>)
        ''enroll-button''
   \<and> console (availableListClick \<lparr>targetClassList = [''enroll-button''], datasetCourseId = None\<rparr>
        Rejected Rejected loadedDashboard) = [(Error, ''Enroll button clicked but course ID not found.'')]
   \<and> textContent (statusMessageElement (availableListClick
        \<lparr>targetClassList = [''enroll-button''], datasetCourseId = None\<rparr> Rejected Rejected loadedDashboard)) =
        ''Error: Could not identify course to enroll.''
   \<and> fetched (availableListClick \<lparr>targetClassList = [''enroll-button''], datasetCourseId = None\<rparr>
        Rejected Rejected loadedDashboard) = [Get ''/api/dashboard'']
   \<and> enrolledListClick \<lparr>targetClassList = [''enroll-button''], datasetCourseId = None\<rparr>
        Rejected Rejected loadedDashboard = loadedDashboard"
  using click_without_course_id
    [of "\<lparr>targetClassList = [''enroll-button''], datasetCourseId = None\<rparr>" Rejected Rejected loadedDashboard]
  by (simp add: classList_contains_def loadedDashboard_def sampleData_def blankDashboard_def
      fetchDashboardData_def ok_def fetch_def Let_def)

text \<open>
  C4 as stated fails in the enrolled list: a click on an element with the class
  \<open>disenroll-button\<close> and no course id logs nothing and sets no status.
\<close>

theorem enrolled_click_without_course_id_counterexample:
  "classList_contains (targetClassList \<lparr>targetClassList = [''disenroll-button''], datasetCourseId = None\<rparr>)
     ''disenroll-button''
   \<and> datasetCourseId \<lparr>targetClassList = [''disenroll-button''], datasetCourseId = None\<rparr> = None
   \<and> console (enrolledListClick \<lparr>targetClassList = [''disenroll-button''], datasetCourseId = None\<rparr>
        Rejected Rejected blankDashboard) = []
   \<and> textContent (statusMessageElement (enrolledListClick
        \<lparr>targetClassList = [''disenroll-button''], datasetCourseId = None\<rparr> Rejected Rejected blankDashboard)) = []
   \<and> fetched (enrolledListClick \<lparr>targetClassList = [''disenroll-button''], datasetCourseId = None\<rparr>
        Rejected Rejected blankDashboard) = []"
  by (simp add: enrolledListClick_def classList_contains_def blankDashboard_def)

subsection \<open>Enrolling, disenrolling, marking as finished\<close>

lemma failureShown_error:
  "failureShown d req message
     (clearStatusMessageAfterDelay n (setStatusMessage message ''error''
        (console_log Error l (fetch req (setStatusMessage m0 t0 d)))))"
  by (simp add: failureShown_def bucketsKept_def console_log_def fetch_def
      classList_contains_def setStatusMessage_classes)

lemma failureShown_error_logged:
  "failureShown d req message
     (clearStatusMessageAfterDelay n (console_log Error l (setStatusMessage message ''error''
        (fetch req (setStatusMessage m0 t0 d)))))"
  by (simp add: failureShown_def bucketsKept_def console_log_def fetch_def
      classList_contains_def setStatusMessage_classes)

lemma enrollInCourse_rejected:
  "enrollInCourse courseId Rejected reload d =
     clearStatusMessageAfterDelay 3000 (setStatusMessage ''An error occurred during enrollment.'' ''error''
       (console_log Error ''Error during enrollInCourse:''
          (fetch (Post ''/api/enroll'' [(''courseId'', courseId)])
             (setStatusMessage ''Enrolling...'' ''info'' d))))"
  by (simp add: enrollInCourse_def enrollInCourse_catch_def)

lemma enrollInCourse_not_ok:
  "\<not> ok response \<Longrightarrow>
   enrollInCourse courseId (Resolved response) reload d =
     clearStatusMessageAfterDelay 3000 (console_log Error ''Enrollment failed:''
       (setStatusMessage
          (orElse (optionalMessage (body response))
             (''Enrollment failed (Status: '' @ numberToString (status response) @ '')''))
          ''error''
          (fetch (Post ''/api/enroll'' [(''courseId'', courseId)])
             (setStatusMessage ''Enrolling...'' ''info'' d))))"
  by (simp add: enrollInCourse_def)

lemma disenrollFromCourse_rejected:
  "disenrollFromCourse courseId Rejected reload d =
     clearStatusMessageAfterDelay 3000 (setStatusMessage ''An error occurred during disenrollment.'' ''error''
       (console_log Error ''Error during disenrollFromCourse:''
          (fetch (Post ''/api/disenroll'' [(''courseId'', courseId)])
             (setStatusMessage ''Disenrolling...'' ''info'' d))))"
  by (simp add: disenrollFromCourse_def disenrollFromCourse_catch_def)

lemma disenrollFromCourse_not_ok:
  "\<not> ok response \<Longrightarrow>
   disenrollFromCourse courseId (Resolved response) reload d =
     clearStatusMessageAfterDelay 3000 (console_log Error ''Disenrollment failed:''
       (setStatusMessage
          (orElse (optionalMessage (body response))
             (''Disenrollment failed (Status: '' @ numberToString (status response) @ '')''))
          ''error''
          (fetch (Post ''/api/disenroll'' [(''courseId'', courseId)])
             (setStatusMessage ''Disenrolling...'' ''info'' d))))"
  by (simp add: disenrollFromCourse_def)

lemma markCourseAsFinished_rejected:
  "markCourseAsFinished courseId Rejected reload d =
     clearStatusMessageAfterDelay 3000
       (setStatusMessage ''An error occurred while marking the course as finished.'' ''error''
          (console_log Error ''Error during markCourseAsFinished:''
             (fetch (Post ''/api/course/finish'' [(''courseId'', courseId)])
                (setStatusMessage ''Marking as finished...'' ''info'' d))))"
  by (simp add: markCourseAsFinished_def markCourseAsFinished_catch_def)

lemma markCourseAsFinished_not_ok:
  "\<not> ok response \<Longrightarrow>
   markCourseAsFinished courseId (Resolved response) reload d =
     clearStatusMessageAfterDelay 3000 (console_log Error ''Mark as finished failed:''
       (setStatusMessage
          (orElse (optionalMessage (body response))
             (''Failed to mark as finished (Status: '' @ numberToString (status response) @ '')''))
          ''error''
          (fetch (Post ''/api/course/finish'' [(''courseId'', courseId)])
             (setStatusMessage ''Marking as finished...'' ''info'' d))))"
  by (simp add: markCourseAsFinished_def)

text \<open>
  C3 (amended): when the request of enroll, disenroll or mark-finished fails, the three
  bucket lists and the student name are left as they were, no dashboard request is issued
  (the only request is the action's POST), and the status becomes an error whose text is:
  after a network failure, the fixed message of the action (\<open>An error occurred ...\<close>, which
  names no HTTP status); after a response outside 200-299, the server's message when it is
  present and not empty, else the fixed default of the action with the HTTP status.
\<close>

theorem failed_mutation_keeps_buckets:
  "failureShown d (Post ''/api/enroll'' [(''courseId'', courseId)])
     ''An error occurred during enrollment.'' (enrollInCourse courseId Rejected reload d)
   \<and> failureShown d (Post ''/api/disenroll'' [(''courseId'', courseId)])
     ''An error occurred during disenrollment.'' (disenrollFromCourse courseId Rejected reload d)
   \<and> failureShown d (Post ''/api/course/finish'' [(''courseId'', courseId)])
     ''An error occurred while marking the course as finished.''
     (markCourseAsFinished courseId Rejected reload d)
   \<and> (\<not> ok response \<longrightarrow>
       failureShown d (Post ''/api/enroll'' [(''courseId'', courseId)])
         (orElse (optionalMessage (body response))
            (''Enrollment failed (Status: '' @ numberToString (status response) @ '')''))
         (enrollInCourse courseId (Resolved response) reload d)
       \<and> failureShown d (Post ''/api/disenroll'' [(''courseId'', courseId)])
         (orElse (optionalMessage (body response))
            (''Disenrollment failed (Status: '' @ numberToString (status response) @ '')''))
         (disenrollFromCourse courseId (Resolved response) reload d)
       \<and> failureShown d (Post ''/api/course/finish'' [(''courseId'', courseId)])
         (orElse (optionalMessage (body response))
            (''Failed to mark as finished (Status: '' @ numberToString (status response) @ '')''))
         (markCourseAsFinished courseId (Resolved response) reload d))"
proof (intro conjI impI)
  assume "\<not> ok response"
  then show "failureShown d (Post ''/api/enroll'' [(''courseId'', courseId)])
         (orElse (optionalMessage (body response))
            (''Enrollment failed (Status: '' @ numberToString (status response) @ '')''))
         (enrollInCourse courseId (Resolved response) reload d)"
    by (simp only: enrollInCourse_not_ok failureShown_error_logged simp_thms)
next
  assume "\<not> ok response"
  then show "failureShown d (Post ''/api/disenroll'' [(''courseId'', courseId)])
         (orElse (optionalMessage (body response))
            (''Disenrollment failed (Status: '' @ numberToString (status response) @ '')''))
         (disenrollFromCourse courseId (Resolved response) reload d)"
    by (simp only: disenrollFromCourse_not_ok failureShown_error_logged simp_thms)
next
  assume "\<not> ok response"
  then show "failureShown d (Post ''/api/course/finish'' [(''courseId'', courseId)])
         (orElse (optionalMessage (body response))
            (''Failed to mark as finished (Status: '' @ numberToString (status response) @ '')''))
         (markCourseAsFinished courseId (Resolved response) reload d)"
    by (simp only: markCourseAsFinished_not_ok failureShown_error_logged simp_thms)
qed (simp_all only: enrollInCourse_rejected disenrollFromCourse_rejected
      markCourseAsFinished_rejected failureShown_error)

theorem failed_mutation_keeps_buckets_witness:
  "\<not> ok \<lparr>status = 409, statusText = ''CONFLICT'', body = JsonObject (Some ''Already enrolled'')\<rparr>
   \<and> enrolledListElement (enrollInCourse ''12'' conflict sampleData loadedDashboard) =
       enrolledListElement loadedDashboard
   \<and> availableListElement (enrollInCourse ''12'' conflict sampleData loadedDashboard) =
       availableListElement loadedDashboard
   \<and> finishedListElement (enrollInCourse ''12'' conflict sampleData loadedDashboard) =
       [''No courses finished yet.'']
   \<and> fetched (enrollInCourse ''12'' conflict sampleData loadedDashboard) =
       [Get ''/api/dashboard'', Post ''/api/enroll'' [(''courseId'', ''12'')]]
   \<and> textContent (statusMessageElement (enrollInCourse ''12'' conflict sampleData loadedDashboard)) =
       ''Already enrolled''
   \<and> \<not> ok \<lparr>status = 500, statusText = ''INTERNAL SERVER ERROR'', body = JsonNull\<rparr>
   \<and> textContent (statusMessageElement (disenrollFromCourse ''7'' serverError sampleData loadedDashboard)) =
       ''Disenrollment failed (Status: 500)''
   \<and> fetched (disenrollFromCourse ''7'' serverError sampleData loadedDashboard) =
       [Get ''/api/dashboard'', Post ''/api/disenroll'' [(''courseId'', ''7'')]]"
  using failed_mutation_keeps_buckets
      [of loadedDashboard "''12''" sampleData
        "\<lparr>status = 409, statusText = ''CONFLICT'', body = JsonObject (Some ''Already enrolled'')\<rparr>"]
    failed_mutation_keeps_buckets
      [of loadedDashboard "''7''" sampleData
        "\<lparr>status = 500, statusText = ''INTERNAL SERVER ERROR'', body = JsonNull\<rparr>"]
  by (simp add: failureShown_def bucketsKept_def conflict_def serverError_def reply_def ok_def
      numberToString.simps digit_def loadedDashboard_def sampleData_def blankDashboard_def
      fetchDashboardData_def fetch_def Let_def renderCourses_def placeholder_def)

text \<open>
  C3 as stated fails after a network failure: there is no server message, and the status
  shown does not mention an HTTP status. A server message that is present and empty is not
  shown either.
\<close>

theorem network_failure_message_counterexample:
  "textContent (statusMessageElement (enrollInCourse ''12'' Rejected sampleData loadedDashboard)) =
     ''An error occurred during enrollment.''
   \<and> \<not> includesStr
         (textContent (statusMessageElement (enrollInCourse ''12'' Rejected sampleData loadedDashboard)))
         ''Status''
   \<and> textContent (statusMessageElement
        (enrollInCourse ''12'' (reply 409 ''CONFLICT'' (JsonObject (Some []))) sampleData loadedDashboard)) =
     ''Enrollment failed (Status: 409)''"
  by (simp add: enrollInCourse_rejected enrollInCourse_not_ok reply_def ok_def
      numberToString.simps digit_def console_log_def)

lemma fetchDashboardData_fetched:
  "fetched (fetchDashboardData answer d) = fetched d @ [Get ''/api/dashboard'']"
  by (simp add: fetchDashboardData_def fetchDashboardData_catch_def fetch_def console_log_def
      setTimeout_def Let_def split: outcome.splits option.splits)

lemma enrollInCourse_ok_json:
  "ok response \<Longrightarrow> body response = JsonObject message \<Longrightarrow>
   enrollInCourse courseId (Resolved response) reload d =
     clearStatusMessageAfterDelay 3000
       (fetchDashboardData reload
          (setStatusMessage (orElse message ''Successfully enrolled!'') ''success''
             (fetch (Post ''/api/enroll'' [(''courseId'', courseId)])
                (setStatusMessage ''Enrolling...'' ''info'' d))))"
  by (simp add: enrollInCourse_def)

lemma enrollInCourse_ok_json_fetched:
  "ok response \<Longrightarrow> body response = JsonObject message \<Longrightarrow>
   fetched (enrollInCourse courseId (Resolved response) reload d) =
     fetched d @ [Post ''/api/enroll'' [(''courseId'', courseId)], Get ''/api/dashboard'']"
  by (simp add: enrollInCourse_ok_json fetchDashboardData_fetched fetch_def)

lemma clear_timer_unconditional:
  "i < length (timers d) \<Longrightarrow> snd (timers d ! i) = ClearStatus \<Longrightarrow>
   textContent (statusMessageElement (fireTimer i d)) = []"
  by (simp add: fireTimer_def)

lemma clearStatusMessageAfterDelay_timers:
  "timers (clearStatusMessageAfterDelay delay d) =
     (if isActionMessage (textContent (statusMessageElement d))
      then timers d @ [(delay, ClearStatus)] else timers d)"
  by (simp add: clearStatusMessageAfterDelay_def setTimeout_def)

text \<open>
  C2 at a response with status 200 whose body is not JSON: each action shows its error
  status and does not call \<open>fetchDashboardData\<close> (no second dashboard request).
\<close>

theorem ok_reply_without_json_is_reported_as_error:
  "ok \<lparr>status = 200, statusText = ''OK'', body = JsonNull\<rparr>
   \<and> textContent (statusMessageElement
        (enrollInCourse ''12'' (reply 200 ''OK'' JsonNull) sampleData loadedDashboard)) =
       ''An error occurred during enrollment.''
   \<and> classList (statusMessageElement
        (enrollInCourse ''12'' (reply 200 ''OK'' JsonNull) sampleData loadedDashboard)) =
       [''message-area'', ''error-message'']
   \<and> fetched (enrollInCourse ''12'' (reply 200 ''OK'' JsonNull) sampleData loadedDashboard) =
       [Get ''/api/dashboard'', Post ''/api/enroll'' [(''courseId'', ''12'')]]
   \<and> textContent (statusMessageElement
        (disenrollFromCourse ''7'' (reply 200 ''OK'' JsonNull) sampleData loadedDashboard)) =
       ''An error occurred during disenrollment.''
   \<and> fetched (disenrollFromCourse ''7'' (reply 200 ''OK'' JsonNull) sampleData loadedDashboard) =
       [Get ''/api/dashboard'', Post ''/api/disenroll'' [(''courseId'', ''7'')]]
   \<and> textContent (statusMessageElement
        (markCourseAsFinished ''7'' (reply 200 ''OK'' JsonNull) sampleData loadedDashboard)) =
       ''An error occurred while marking the course as finished.''
   \<and> fetched (markCourseAsFinished ''7'' (reply 200 ''OK'' JsonNull) sampleData loadedDashboard) =
       [Get ''/api/dashboard'', Post ''/api/course/finish'' [(''courseId'', ''7'')]]"
  by (simp add: ok_def reply_def enrollInCourse_def enrollInCourse_catch_def
      disenrollFromCourse_def disenrollFromCourse_catch_def markCourseAsFinished_def
      markCourseAsFinished_catch_def console_log_def fetch_def loadedDashboard_def
      fetchDashboardData_fetched blankDashboard_def setStatusMessage_def classList_add_def
      classList_remove_def fetchDashboardData_def sampleData_def Let_def)

lemma enroll_ok_with_message_example:
  "textContent (statusMessageElement
     (enrollInCourse ''12'' (reply 200 ''OK'' (JsonObject (Some ''Enrolled!''))) sampleData loadedDashboard)) =
     ''Enrolled!''
   \<and> fetched (enrollInCourse ''12'' (reply 200 ''OK'' (JsonObject (Some ''Enrolled!''))) sampleData
        loadedDashboard) =
     [Get ''/api/dashboard'', Post ''/api/enroll'' [(''courseId'', ''12'')], Get ''/api/dashboard'']"
  by (simp add: ok_def reply_def enrollInCourse_def fetch_def loadedDashboard_def
      fetchDashboardData_fetched blankDashboard_def fetchDashboardData_def sampleData_def Let_def)

lemma afterEnrolment_status:
  "statusMessageElement afterEnrolment =
     \<lparr>textContent = ''Successfully enrolled!'', classList = [''message-area'', ''success-message'']\<rparr>"
  by (simp add: afterEnrolment_def ok_def reply_def enrollInCourse_def fetch_def loadedDashboard_def
      blankDashboard_def fetchDashboardData_def sampleData_def Let_def setStatusMessage_def
      classList_add_def classList_remove_def)

lemma afterEnrolment_timers: "timers afterEnrolment = [(3000, ClearStatus)]"
  by (simp add: afterEnrolment_def ok_def reply_def enrollInCourse_def fetch_def loadedDashboard_def
      blankDashboard_def fetchDashboardData_def sampleData_def Let_def
      clearStatusMessageAfterDelay_timers isActionMessage_def)

text \<open>
  C1 at a concrete run: an enrolment succeeds and arms the timer; then a click on an enroll
  button without course id sets an error message that is no action message; then the timer
  fires and clears that newer message.
\<close>

theorem stale_timer_clears_newer_message:
  "textContent (statusMessageElement afterEnrolment) = ''Successfully enrolled!''
   \<and> timers afterEnrolment = [(3000, ClearStatus)]
   \<and> textContent (statusMessageElement afterBadClick) = ''Error: Could not identify course to enroll.''
   \<and> \<not> isActionMessage (textContent (statusMessageElement afterBadClick))
   \<and> timers afterBadClick = [(3000, ClearStatus)]
   \<and> textContent (statusMessageElement (fireTimer 0 afterBadClick)) = []
   \<and> classList (statusMessageElement (fireTimer 0 afterBadClick)) = [''message-area'']"
  by (simp add: afterEnrolment_status afterEnrolment_timers afterBadClick_def
      enrollButtonWithoutId_def availableListClick_def classList_contains_def console_log_def
      isActionMessage_def fireTimer_def setStatusMessage_def classList_add_def
      classList_remove_def Let_def)

end
